theory Spec2Isabelle
  imports Main "HOL-Library.Multiset" "HOL-Library.Sublist"
begin

section \<open>Persistent tables\<close>

text \<open>
  The server keeps four PostgreSQL tables. A table is the list of its rows in insertion
  order; a \<open>SELECT\<close> without \<open>ORDER BY\<close> returns the matching rows in that order and
  \<open>rows[0]\<close> is the head of the result. User and message ids are numbers (the only falsy
  one is 0), friend-request ids are the strings \<open>gen_random_uuid()\<close> yields, timestamps
  are readings of the store's clock.
\<close>

record user_row =
  u_id :: nat
  username :: string
  u_name :: string
  password_hash :: string
  last_login :: "nat option"

record friendship_row =
  user1_id :: nat
  user2_id :: nat

record friend_request_row =
  fr_id :: string
  fr_sender_id :: nat
  fr_receiver_id :: nat
  fr_status :: string
  fr_created_at :: nat
  fr_updated_at :: nat

record message_row =
  m_id :: nat
  m_sender_id :: nat
  m_receiver_id :: nat
  m_content :: "string option"
  m_message_type :: string
  m_image_data :: "string option"
  m_created_at :: nat

text \<open>
  Modelled from the spec: the table declarations are not in the source. Ids of users and
  messages are server-assigned from a sequence per table, and \<open>created_at\<close> defaults to
  the store's \<open>NOW()\<close>, here the field \<open>clock\<close>.
\<close>

record db =
  users :: "user_row list"
  friendships :: "friendship_row list"
  friend_requests :: "friend_request_row list"
  messages :: "message_row list"
  users_id_seq :: nat
  messages_id_seq :: nat
  clock :: nat

subsection \<open>JavaScript values of request fields\<close>

text \<open>
  A field of a request body or of a socket event may be absent (\<open>None\<close>). \<open>!x\<close> holds
  of an absent field, of the number 0 and of the empty string.
\<close>

definition truthy_num :: "nat option \<Rightarrow> bool" where
  "truthy_num v = (case v of None \<Rightarrow> False | Some n \<Rightarrow> n \<noteq> 0)"

definition truthy_str :: "string option \<Rightarrow> bool" where
  "truthy_str v = (case v of None \<Rightarrow> False | Some s \<Rightarrow> s \<noteq> [])"

text \<open>
  Every \<open>pool.query\<close> may reject (lost connection, violated constraint). The argument
  \<open>fault\<close> of a handler names the query of the call, counted from 0, that rejects;
  \<open>None\<close> is a store that answers them all.
\<close>

type_synonym fault = "nat option"

datatype json =
    ErrorJson string
  | MessageJson string
  | UserJson nat string string
  | FriendsJson "(nat \<times> string \<times> string) list"
  | RequestsJson "(string \<times> nat \<times> string \<times> string \<times> nat) list"
  | MessagesJson "message_row list"

type_synonym response = "nat \<times> json"

definition internal_error :: response where
  "internal_error = (500, ErrorJson ''Internal server error'')"

section \<open>The socket event \<open>chat message\<close> (server.js)\<close>

text \<open>
  The handler of the second file of part_000 is the same but for one more console line
  in its \<open>catch\<close> block.
\<close>

record chat_msg =
  senderId :: "nat option"
  receiverId :: "nat option"
  content :: "string option"
  messageType :: "string option"
  imageData :: "string option"

text \<open>
  A live connection is a socket of the Socket.io server. The server keeps no table from
  users to sockets; \<open>conn_user\<close> is the user logged in at the other end, which only the
  client knows.
\<close>

record conn =
  socket_id :: nat
  conn_user :: nat

record server =
  store :: db
  connections :: "conn list"

text \<open>What a handler does to the outside, in program order.\<close>

datatype effect =
    Console string
  | Insert message_row
  | Emit nat message_row

definition insert_message ::
  "db \<Rightarrow> nat \<Rightarrow> nat \<Rightarrow> string option \<Rightarrow> string \<Rightarrow> string option \<Rightarrow> db \<times> message_row" where
  "insert_message d s r c t i =
     (let row = \<lparr>m_id = Suc (messages_id_seq d), m_sender_id = s, m_receiver_id = r,
                 m_content = c, m_message_type = t, m_image_data = i,
                 m_created_at = clock d\<rparr>
      in (d\<lparr>messages := messages d @ [row], messages_id_seq := Suc (messages_id_seq d)\<rparr>, row))"

definition io_emit :: "conn list \<Rightarrow> message_row \<Rightarrow> effect list" where
  "io_emit cs payload = map (\<lambda>c. Emit (socket_id c) payload) cs"

definition save_and_emit ::
  "fault \<Rightarrow> server \<Rightarrow> nat \<Rightarrow> nat \<Rightarrow> string option \<Rightarrow> string \<Rightarrow> string option
     \<Rightarrow> server \<times> effect list" where
  "save_and_emit f srv s r c t i =
     (if f = Some 0 then (srv, [Console ''Error saving message to database:''])
      else let (d', savedMessage) = insert_message (store srv) s r c t i
           in (srv\<lparr>store := d'\<rparr>, Insert savedMessage # io_emit (connections srv) savedMessage))"

definition chat_message :: "fault \<Rightarrow> server \<Rightarrow> chat_msg \<Rightarrow> server \<times> effect list" where
  "chat_message f srv msg =
     (if \<not> truthy_num (senderId msg) \<or> \<not> truthy_num (receiverId msg)
      then (srv, [Console ''Received message:'', Console ''Message missing senderId or receiverId''])
      else if messageType msg = Some ''image'' \<and> truthy_str (imageData msg)
      then (let (srv', es) = save_and_emit f srv (the (senderId msg)) (the (receiverId msg))
                               None ''image'' (imageData msg)
            in (srv', Console ''Received message:'' # es))
      else if \<not> truthy_str (content msg)
      then (srv, [Console ''Received message:'', Console ''Text message missing content''])
      else (let (srv', es) = save_and_emit f srv (the (senderId msg)) (the (receiverId msg))
                               (content msg) ''text'' None
            in (srv', Console ''Received message:'' # es)))"

section \<open>HTTP handlers of server.js\<close>

text \<open>
  \<open>POST /register\<close>. \<open>passwordHash\<close> is what \<open>bcrypt.hash\<close> returned. A store
  that works rejects an insert repeating a username with code 23505; any other rejection
  is answered with 500.
\<close>

definition register ::
  "fault \<Rightarrow> string \<Rightarrow> db \<Rightarrow> string option \<Rightarrow> string option \<Rightarrow> string option \<Rightarrow> db \<times> response" where
  "register f passwordHash d uname password nm =
     (if \<not> truthy_str uname \<or> \<not> truthy_str password
      then (d, 400, ErrorJson ''Username and password are required'')
      else if f = Some 0 then (d, internal_error)
      else if [u \<leftarrow> users d. username u = the uname] \<noteq> []
      then (d, 409, ErrorJson ''Username already exists'')
      else let row = \<lparr>u_id = Suc (users_id_seq d), username = the uname,
                       u_name = (if truthy_str nm then the nm else the uname),
                       password_hash = passwordHash, last_login = None\<rparr>
           in (d\<lparr>users := users d @ [row], users_id_seq := Suc (users_id_seq d)\<rparr>,
               201, UserJson (u_id row) (username row) (u_name row)))"

text \<open>\<open>POST /login\<close>. \<open>isMatch\<close> is the answer of \<open>bcrypt.compare\<close>.\<close>

definition login ::
  "fault \<Rightarrow> (string \<Rightarrow> string \<Rightarrow> bool) \<Rightarrow> db \<Rightarrow> string option \<Rightarrow> string option \<Rightarrow> db \<times> response" where
  "login f isMatch d uname password =
     (if \<not> truthy_str uname \<or> \<not> truthy_str password
      then (d, 400, ErrorJson ''Username and password are required'')
      else if f = Some 0 then (d, internal_error)
      else case [u \<leftarrow> users d. username u = the uname] of
             [] \<Rightarrow> (d, 401, ErrorJson ''Invalid username or password'')
           | user # _ \<Rightarrow>
               if isMatch (the password) (password_hash user)
               then (if f = Some 1 then (d, internal_error)
                     else (d\<lparr>users := map (\<lambda>u. if u_id u = u_id user
                                                 then u\<lparr>last_login := Some (clock d)\<rparr> else u)
                                           (users d)\<rparr>,
                           200, UserJson (u_id user) (username user)
                                  (if u_name user \<noteq> [] then u_name user else username user)))
               else (d, 401, ErrorJson ''Invalid username or password''))"

text \<open>
  The friendship rows of a pair:
  \<open>(user1_id = $1 AND user2_id = $2) OR (user1_id = $2 AND user2_id = $1)\<close>.
\<close>

definition friendship_of :: "nat \<Rightarrow> nat \<Rightarrow> friendship_row \<Rightarrow> bool" where
  "friendship_of a b x =
     ((user1_id x = a \<and> user2_id x = b) \<or> (user1_id x = b \<and> user2_id x = a))"

text \<open>\<open>POST /add-friend\<close> of server.js.\<close>

definition add_friend :: "fault \<Rightarrow> db \<Rightarrow> nat option \<Rightarrow> string option \<Rightarrow> db \<times> response" where
  "add_friend f d userId friendUsername =
     (if \<not> truthy_num userId \<or> \<not> truthy_str friendUsername
      then (d, 400, ErrorJson ''User ID and friend username are required'')
      else if f = Some 0 then (d, internal_error)
      else case [u \<leftarrow> users d. username u = the friendUsername] of
             [] \<Rightarrow> (d, 404, ErrorJson ''Friend username not found'')
           | friend # _ \<Rightarrow>
               let friendId = u_id friend in
               if f = Some 1 then (d, internal_error)
               else if [x \<leftarrow> friendships d. friendship_of (the userId) friendId x] \<noteq> []
               then (d, 409, ErrorJson ''Friendship already exists'')
               else if f = Some 2 then (d, internal_error)
               else (d\<lparr>friendships := friendships d @
                         [\<lparr>user1_id = the userId, user2_id = friendId\<rparr>]\<rparr>,
                     201, MessageJson ''Friend added successfully''))"

text \<open>
  \<open>POST /add-friend\<close> of the server that issues tokens (third file of part_000): the
  same steps, other status codes and messages.
\<close>

definition add_friend_token_server ::
  "fault \<Rightarrow> db \<Rightarrow> nat option \<Rightarrow> string option \<Rightarrow> db \<times> response" where
  "add_friend_token_server f d userId friendUsername =
     (if \<not> truthy_num userId \<or> \<not> truthy_str friendUsername
      then (d, 400, ErrorJson ''userId and friendUsername are required'')
      else if f = Some 0 then (d, internal_error)
      else case [u \<leftarrow> users d. username u = the friendUsername] of
             [] \<Rightarrow> (d, 404, ErrorJson ''User not found'')
           | friend # _ \<Rightarrow>
               let friendId = u_id friend in
               if f = Some 1 then (d, internal_error)
               else if [x \<leftarrow> friendships d. friendship_of (the userId) friendId x] \<noteq> []
               then (d, 400, ErrorJson ''Friendship already exists'')
               else if f = Some 2 then (d, internal_error)
               else (d\<lparr>friendships := friendships d @
                         [\<lparr>user1_id = the userId, user2_id = friendId\<rparr>]\<rparr>,
                     200, MessageJson ''Friend added successfully''))"

text \<open>
  \<open>GET /friends/:userId\<close>: users joined with friendships
  \<open>ON (u.id = f.user1_id AND f.user2_id = $1) OR (u.id = f.user2_id AND f.user1_id = $1)\<close>,
  \<open>WHERE u.id != $1\<close>.
\<close>

definition join_on :: "nat \<Rightarrow> user_row \<Rightarrow> friendship_row \<Rightarrow> bool" where
  "join_on userId u x =
     ((u_id u = user1_id x \<and> user2_id x = userId) \<or> (u_id u = user2_id x \<and> user1_id x = userId))"

definition friends_rows :: "db \<Rightarrow> nat \<Rightarrow> (nat \<times> string \<times> string) list" where
  "friends_rows d userId =
     concat (map (\<lambda>u. concat (map (\<lambda>x. if join_on userId u x \<and> u_id u \<noteq> userId
                                         then [(u_id u, username u, u_name u)] else [])
                                   (friendships d)))
                 (users d))"

definition get_friends :: "fault \<Rightarrow> db \<Rightarrow> nat \<Rightarrow> response" where
  "get_friends f d userId =
     (if f = Some 0 then internal_error else (200, FriendsJson (friends_rows d userId)))"

text \<open>
  \<open>GET /messages/:userId/:friendId\<close>:
  \<open>WHERE (sender_id = $1 AND receiver_id = $2) OR (sender_id = $2 AND receiver_id = $1)
  ORDER BY created_at ASC\<close>. The query selects every column of the table.
\<close>

definition in_conversation :: "nat \<Rightarrow> nat \<Rightarrow> message_row \<Rightarrow> bool" where
  "in_conversation userId friendId m =
     ((m_sender_id m = userId \<and> m_receiver_id m = friendId) \<or>
      (m_sender_id m = friendId \<and> m_receiver_id m = userId))"

definition messages_rows :: "db \<Rightarrow> nat \<Rightarrow> nat \<Rightarrow> message_row list" where
  "messages_rows d userId friendId =
     sort_key m_created_at [m \<leftarrow> messages d. in_conversation userId friendId m]"

definition get_messages :: "fault \<Rightarrow> db \<Rightarrow> nat \<Rightarrow> nat \<Rightarrow> response" where
  "get_messages f d userId friendId =
     (if f = Some 0 then internal_error
      else (200, MessagesJson (messages_rows d userId friendId)))"

section \<open>The friend-request handlers (second file of part_000)\<close>

text \<open>
  The requests of a pair, in either direction:
  \<open>(sender_id = $1 AND receiver_id = $2) OR (sender_id = $2 AND receiver_id = $1)\<close>.
\<close>

definition request_of :: "nat \<Rightarrow> nat \<Rightarrow> friend_request_row \<Rightarrow> bool" where
  "request_of a b r =
     ((fr_sender_id r = a \<and> fr_receiver_id r = b) \<or> (fr_sender_id r = b \<and> fr_receiver_id r = a))"

text \<open>
  The \<open>senderId\<close> of the request body is JSON: a number or a string. A string is
  truthy when it is not empty, and \<open>===\<close> never holds between a string and the number
  of a row.
\<close>

datatype js_id = IdNum nat | IdStr string

definition truthy_id :: "js_id option \<Rightarrow> bool" where
  "truthy_id v =
     (case v of None \<Rightarrow> False | Some (IdNum n) \<Rightarrow> n \<noteq> 0 | Some (IdStr s) \<Rightarrow> s \<noteq> [])"

definition strict_eq :: "js_id \<Rightarrow> nat \<Rightarrow> bool" where
  "strict_eq x n = (case x of IdNum m \<Rightarrow> m = n | IdStr s \<Rightarrow> False)"

text \<open>The value of a decimal digit is its place among the ten digits.\<close>

fun place :: "char \<Rightarrow> string \<Rightarrow> nat option" where
  "place c [] = None"
| "place c (x # xs) = (if c = x then Some 0 else map_option Suc (place c xs))"

definition digit_of :: "char \<Rightarrow> nat option" where
  "digit_of c = place c ''0123456789''"

fun decimal :: "nat \<Rightarrow> string \<Rightarrow> nat option" where
  "decimal acc [] = Some acc"
| "decimal acc (c # cs) =
     (case digit_of c of None \<Rightarrow> None | Some k \<Rightarrow> decimal (10 * acc + k) cs)"

text \<open>
  Modelled from the spec: the table declarations are not in the source. The id columns
  that refer to users hold integers, and the store reads a query parameter bound to such
  a column as the integer its text spells; it rejects the statement when the text is not
  a numeral.
\<close>

definition sql_int :: "js_id \<Rightarrow> nat option" where
  "sql_int x = (case x of IdNum n \<Rightarrow> Some n | IdStr s \<Rightarrow> (if s = [] then None else decimal 0 s))"

text \<open>
  What \<open>/send-friend-request\<close> answers from the rows \<open>checkRequestQuery\<close> returned, if it
  answers at all: it reads \<open>requestResult.rows[0]\<close> only, and compares its sender with
  the \<open>senderId\<close> of the body by \<open>===\<close>.
\<close>

definition existing_request_reply :: "js_id \<Rightarrow> friend_request_row list \<Rightarrow> response option" where
  "existing_request_reply sender rows =
     (case rows of
        [] \<Rightarrow> None
      | existingRequest # _ \<Rightarrow>
          if fr_status existingRequest = ''pending''
          then (if strict_eq sender (fr_sender_id existingRequest)
                then Some (409, ErrorJson ''Friend request already sent to this user'')
                else Some (409, ErrorJson
                  ''This user has already sent you a friend request. Please check your requests.''))
          else if fr_status existingRequest = ''accepted''
          then Some (409, ErrorJson ''You are already friends with this user'')
          else None)"

text \<open>
  \<open>POST /send-friend-request\<close>. \<open>uuid\<close> is the id \<open>gen_random_uuid()\<close> gives the new row.
  The self check compares the body's \<open>senderId\<close> with the id of the row by \<open>===\<close>; the
  three statements that follow bind \<open>senderId\<close> to integer columns, and the first of them
  is rejected when it does not spell an integer.
\<close>

definition send_friend_request ::
  "fault \<Rightarrow> string \<Rightarrow> db \<Rightarrow> js_id option \<Rightarrow> string option \<Rightarrow> db \<times> response" where
  "send_friend_request f uuid d sender receiverUsername =
     (if \<not> truthy_id sender \<or> \<not> truthy_str receiverUsername
      then (d, 400, ErrorJson ''Sender ID and receiver username are required'')
      else if f = Some 0 then (d, internal_error)
      else case [u \<leftarrow> users d. username u = the receiverUsername] of
             [] \<Rightarrow> (d, 404, ErrorJson ''Recipient username not found'')
           | receiver # _ \<Rightarrow>
               let receiverId = u_id receiver in
               if strict_eq (the sender) receiverId
               then (d, 400, ErrorJson ''You cannot send a friend request to yourself'')
               else if f = Some 1 then (d, internal_error)
               else (case sql_int (the sender) of
                       None \<Rightarrow> (d, internal_error)
                     | Some senderParam \<Rightarrow>
                         if [x \<leftarrow> friendships d. friendship_of senderParam receiverId x] \<noteq> []
                         then (d, 409, ErrorJson ''You are already friends with this user'')
                         else if f = Some 2 then (d, internal_error)
                         else (case existing_request_reply (the sender)
                                      [r \<leftarrow> friend_requests d. request_of senderParam receiverId r] of
                                 Some reply \<Rightarrow> (d, reply)
                               | None \<Rightarrow>
                                   if f = Some 3 then (d, internal_error)
                                   else (d\<lparr>friend_requests := friend_requests d @
                                             [\<lparr>fr_id = uuid, fr_sender_id = senderParam,
                                               fr_receiver_id = receiverId, fr_status = ''pending'',
                                               fr_created_at = clock d, fr_updated_at = clock d\<rparr>]\<rparr>,
                                         201, MessageJson ''Friend request sent successfully''))))"

text \<open>
  \<open>GET /friend-requests/:userId\<close>: the pending requests received by the user, joined
  with their senders, \<open>ORDER BY fr.created_at DESC\<close>.
\<close>

definition friend_requests_rows :: "db \<Rightarrow> nat \<Rightarrow> (string \<times> nat \<times> string \<times> string \<times> nat) list" where
  "friend_requests_rows d userId =
     concat (map (\<lambda>r. map (\<lambda>u. (fr_id r, fr_sender_id r, username u, u_name u, fr_created_at r))
                            [u \<leftarrow> users d. fr_sender_id r = u_id u])
                 (rev (sort_key fr_created_at
                    [r \<leftarrow> friend_requests d. fr_receiver_id r = userId \<and> fr_status r = ''pending''])))"

definition get_friend_requests :: "fault \<Rightarrow> db \<Rightarrow> nat \<Rightarrow> response" where
  "get_friend_requests f d userId =
     (if f = Some 0 then internal_error else (200, RequestsJson (friend_requests_rows d userId)))"

text \<open>
  The rows accept and decline look for:
  \<open>WHERE id = $1 AND receiver_id = $2 AND status = 'pending'\<close>.
\<close>

definition pending_for :: "string \<Rightarrow> nat \<Rightarrow> friend_request_row \<Rightarrow> bool" where
  "pending_for requestId userId r =
     (fr_id r = requestId \<and> fr_receiver_id r = userId \<and> fr_status r = ''pending'')"

text \<open>
  The names a statement of the \<open>/accept-friend-request\<close> handler can refer to: the
  handler's own declarations and the module's (the globals of Node.js, such as
  \<open>console\<close> and \<open>require\<close>, are left out). Evaluating any other identifier throws
  a ReferenceError.
\<close>

definition accept_scope :: "string list" where
  "accept_scope =
     [''req'', ''res'', ''requestId'', ''userId'', ''client'', ''requestQuery'',
      ''requestResult'', ''request'', ''sender_id'', ''receiver_id'', ''updateRequestQuery'',
      ''insertFriendship1Query'',
      ''express'', ''http'', ''cors'', ''Server'', ''Pool'', ''bcrypt'', ''app'', ''server'',
      ''io'', ''pool'', ''PORT'']"

text \<open>
  \<open>INSERT INTO friendships ... ON CONFLICT (LEAST(user1_id, user2_id),
  GREATEST(user1_id, user2_id)) DO NOTHING\<close>.
\<close>

definition insert_friendship_do_nothing :: "db \<Rightarrow> nat \<Rightarrow> nat \<Rightarrow> db" where
  "insert_friendship_do_nothing d a b =
     (if list_ex (\<lambda>x. min (user1_id x) (user2_id x) = min a b \<and>
                       max (user1_id x) (user2_id x) = max a b) (friendships d)
      then d
      else d\<lparr>friendships := friendships d @ [\<lparr>user1_id = a, user2_id = b\<rparr>]\<rparr>)"

text \<open>
  \<open>POST /accept-friend-request\<close>. The handler's statements are \<open>BEGIN\<close> (0), the
  \<open>SELECT\<close> (1), the \<open>UPDATE\<close> (2), the \<open>INSERT\<close> (3) and \<open>COMMIT\<close> (4); \<open>ROLLBACK\<close>
  is taken to succeed. \<open>tx\<close> is the uncommitted state; answering with \<open>d\<close> is the
  rollback. After the update the handler evaluates the identifier
  \<open>insertFriendship11Query\<close> as the argument of \<open>client.query\<close>; an identifier that is
  not in scope throws, and the \<open>catch\<close> block rolls back and answers 500.
\<close>

definition accept_friend_request ::
  "fault \<Rightarrow> db \<Rightarrow> string option \<Rightarrow> nat option \<Rightarrow> db \<times> response" where
  "accept_friend_request f d requestId userId =
     (if \<not> truthy_str requestId \<or> \<not> truthy_num userId
      then (d, 400, ErrorJson ''Request ID and User ID are required'')
      else if f = Some 0 \<or> f = Some 1 then (d, internal_error)
      else case [r \<leftarrow> friend_requests d. pending_for (the requestId) (the userId) r] of
             [] \<Rightarrow> (d, 404, ErrorJson ''Friend request not found or already processed'')
           | request # _ \<Rightarrow>
               if f = Some 2 then (d, internal_error)
               else let tx = d\<lparr>friend_requests :=
                                 map (\<lambda>r. if fr_id r = the requestId
                                           then r\<lparr>fr_status := ''accepted'', fr_updated_at := clock d\<rparr>
                                           else r)
                                     (friend_requests d)\<rparr>
                    in if ''insertFriendship11Query'' \<notin> set accept_scope
                       then (d, internal_error)
                       else if f = Some 3 then (d, internal_error)
                       else let tx' = insert_friendship_do_nothing tx (fr_sender_id request)
                                        (fr_receiver_id request)
                            in if f = Some 4 then (d, internal_error)
                               else (tx', 200, MessageJson ''Friend request accepted successfully''))"

text \<open>
  \<open>POST /decline-friend-request\<close>: one \<open>UPDATE ... WHERE id = $1 AND receiver_id = $2
  AND status = 'pending' RETURNING *\<close>; no row returned is a 404.
\<close>

definition decline_friend_request ::
  "fault \<Rightarrow> db \<Rightarrow> string option \<Rightarrow> nat option \<Rightarrow> db \<times> response" where
  "decline_friend_request f d requestId userId =
     (if \<not> truthy_str requestId \<or> \<not> truthy_num userId
      then (d, 400, ErrorJson ''Request ID and User ID are required'')
      else if f = Some 0 then (d, internal_error)
      else if [r \<leftarrow> friend_requests d. pending_for (the requestId) (the userId) r] = []
      then (d, 404, ErrorJson ''Friend request not found or already processed'')
      else (d\<lparr>friend_requests :=
                map (\<lambda>r. if pending_for (the requestId) (the userId) r
                          then r\<lparr>fr_status := ''declined'', fr_updated_at := clock d\<rparr>
                          else r)
                    (friend_requests d)\<rparr>,
            200, MessageJson ''Friend request declined successfully''))"

text \<open>The client's input field (App.jsx) carries \<open>maxLength="500"\<close>.\<close>

definition maxLength :: nat where
  "maxLength = 500"

section \<open>The server as a whole\<close>

text \<open>
  The source holds three versions of the server over the same tables: server.js, the
  one with friend requests, and the one that issues tokens. The model offers the
  requests of all of them on one store, each with what the environment contributes to
  it (the faulty query, the hash, the fresh uuid), sockets coming and going, and the
  store's clock moving on.
\<close>

datatype request =
    Register fault string "string option" "string option" "string option"
  | Login fault "string \<Rightarrow> string \<Rightarrow> bool" "string option" "string option"
  | AddFriend fault "nat option" "string option"
  | AddFriendTokenServer fault "nat option" "string option"
  | GetFriends fault nat
  | GetMessages fault nat nat
  | SendFriendRequest fault string "js_id option" "string option"
  | GetFriendRequests fault nat
  | AcceptFriendRequest fault "string option" "nat option"
  | DeclineFriendRequest fault "string option" "nat option"
  | ChatMessage fault chat_msg
  | Connect conn
  | Disconnect nat
  | Tick nat

fun handle :: "server \<Rightarrow> request \<Rightarrow> server" where
  "handle srv (Register f h u p n) = srv\<lparr>store := fst (register f h (store srv) u p n)\<rparr>"
| "handle srv (Login f c u p) = srv\<lparr>store := fst (login f c (store srv) u p)\<rparr>"
| "handle srv (AddFriend f u n) = srv\<lparr>store := fst (add_friend f (store srv) u n)\<rparr>"
| "handle srv (AddFriendTokenServer f u n) =
     srv\<lparr>store := fst (add_friend_token_server f (store srv) u n)\<rparr>"
| "handle srv (GetFriends f u) = srv"
| "handle srv (GetMessages f u v) = srv"
| "handle srv (SendFriendRequest f i s n) =
     srv\<lparr>store := fst (send_friend_request f i (store srv) s n)\<rparr>"
| "handle srv (GetFriendRequests f u) = srv"
| "handle srv (AcceptFriendRequest f r u) =
     srv\<lparr>store := fst (accept_friend_request f (store srv) r u)\<rparr>"
| "handle srv (DeclineFriendRequest f r u) =
     srv\<lparr>store := fst (decline_friend_request f (store srv) r u)\<rparr>"
| "handle srv (ChatMessage f m) = fst (chat_message f srv m)"
| "handle srv (Connect c) = srv\<lparr>connections := connections srv @ [c]\<rparr>"
| "handle srv (Disconnect s) = srv\<lparr>connections := [c \<leftarrow> connections srv. socket_id c \<noteq> s]\<rparr>"
| "handle srv (Tick n) = srv\<lparr>store := (store srv)\<lparr>clock := clock (store srv) + n\<rparr>\<rparr>"

text \<open>The requests that insert into \<open>friendships\<close> when they succeed.\<close>

fun adds_friendship :: "request \<Rightarrow> bool" where
  "adds_friendship (AddFriend f u n) = True"
| "adds_friendship (AddFriendTokenServer f u n) = True"
| "adds_friendship (AcceptFriendRequest f r u) = True"
| "adds_friendship _ = False"

text \<open>The sockets a trace of effects pushed a payload to, in order.\<close>

fun emitted_sockets :: "effect list \<Rightarrow> nat list" where
  "emitted_sockets [] = []"
| "emitted_sockets (Emit s m # es) = s # emitted_sockets es"
| "emitted_sockets (e # es) = emitted_sockets es"

text \<open>
  A message row as the handler writes it: the discriminator names the one payload column
  that is filled.
\<close>

definition well_typed :: "message_row \<Rightarrow> bool" where
  "well_typed m =
     ((m_message_type m = ''text'' \<and> m_content m \<noteq> None \<and> m_image_data m = None) \<or>
      (m_message_type m = ''image'' \<and> m_image_data m \<noteq> None \<and> m_content m = None))"

section \<open>A small installation\<close>

definition alice :: user_row where
  "alice = \<lparr>u_id = 1, username = ''alice'', u_name = ''Alice'', password_hash = ''x'',
            last_login = None\<rparr>"

definition bob :: user_row where
  "bob = \<lparr>u_id = 2, username = ''bob'', u_name = ''Bob'', password_hash = ''y'',
          last_login = None\<rparr>"

definition carol :: user_row where
  "carol = \<lparr>u_id = 3, username = ''carol'', u_name = ''Carol'', password_hash = ''z'',
            last_login = None\<rparr>"

definition db0 :: db where
  "db0 = \<lparr>users = [alice, bob, carol], friendships = [], friend_requests = [], messages = [],
          users_id_seq = 3, messages_id_seq = 0, clock = 100\<rparr>"

text \<open>Alice, Bob and Carol are connected, each with one socket.\<close>

definition srv0 :: server where
  "srv0 = \<lparr>store = db0,
           connections = [\<lparr>socket_id = 10, conn_user = 1\<rparr>, \<lparr>socket_id = 20, conn_user = 2\<rparr>,
                          \<lparr>socket_id = 30, conn_user = 3\<rparr>]\<rparr>"

definition request_row :: "string \<Rightarrow> nat \<Rightarrow> nat \<Rightarrow> string \<Rightarrow> friend_request_row" where
  "request_row i s r st =
     \<lparr>fr_id = i, fr_sender_id = s, fr_receiver_id = r, fr_status = st,
      fr_created_at = 100, fr_updated_at = 100\<rparr>"

text \<open>Alice has asked Bob, and Bob has not answered yet.\<close>

definition db_pending :: db where
  "db_pending = db0\<lparr>friend_requests := [request_row ''r1'' 1 2 ''pending'']\<rparr>"

text \<open>Alice and Bob are friends.\<close>

definition db_friends :: db where
  "db_friends = db0\<lparr>friendships := [\<lparr>user1_id = 1, user2_id = 2\<rparr>]\<rparr>"

text \<open>Bob declined Alice's request.\<close>

definition db_declined :: db where
  "db_declined = db0\<lparr>friend_requests := [request_row ''r1'' 1 2 ''declined'']\<rparr>"

text \<open>Bob declined Alice's first request; she asked again.\<close>

definition db_declined_pending :: db where
  "db_declined_pending =
     db0\<lparr>friend_requests := [request_row ''r1'' 1 2 ''declined'', request_row ''r2'' 1 2 ''pending'']\<rparr>"

definition text_msg :: "nat \<Rightarrow> nat \<Rightarrow> string \<Rightarrow> chat_msg" where
  "text_msg a b c =
     \<lparr>senderId = Some a, receiverId = Some b, content = Some c, messageType = Some ''text'',
      imageData = None\<rparr>"

definition image_msg :: "nat \<Rightarrow> nat \<Rightarrow> string \<Rightarrow> chat_msg" where
  "image_msg a b i =
     \<lparr>senderId = Some a, receiverId = Some b, content = None, messageType = Some ''image'',
      imageData = Some i\<rparr>"

definition image_msg_no_data :: "nat \<Rightarrow> nat \<Rightarrow> string option \<Rightarrow> chat_msg" where
  "image_msg_no_data a b c =
     \<lparr>senderId = Some a, receiverId = Some b, content = c, messageType = Some ''image'',
      imageData = None\<rparr>"

text \<open>
  Alice wrote to Bob at 100, Carol wrote to Bob at 105, Bob answered Alice at 110; the
  rows are stored in another order than they were stamped.
\<close>

definition db_talk :: db where
  "db_talk = db0\<lparr>messages :=
       [\<lparr>m_id = 3, m_sender_id = 2, m_receiver_id = 1, m_content = Some ''hi alice'',
         m_message_type = ''text'', m_image_data = None, m_created_at = 110\<rparr>,
        \<lparr>m_id = 2, m_sender_id = 3, m_receiver_id = 2, m_content = Some ''hi bob'',
         m_message_type = ''text'', m_image_data = None, m_created_at = 105\<rparr>,
        \<lparr>m_id = 1, m_sender_id = 1, m_receiver_id = 2, m_content = Some ''hello'',
         m_message_type = ''text'', m_image_data = None, m_created_at = 100\<rparr>],
     messages_id_seq := 3, clock := 120\<rparr>"

section \<open>Sending a chat message\<close>

lemmas example_defs =
  srv0_def db0_def text_msg_def image_msg_def image_msg_no_data_def truthy_num_def truthy_str_def

lemmas request_defs =
  db0_def db_pending_def db_declined_def db_declined_pending_def db_friends_def request_row_def
  alice_def bob_def carol_def truthy_num_def truthy_str_def

lemma save_and_emit_ok:
  "save_and_emit None srv s r c t i =
     (let saved = \<lparr>m_id = Suc (messages_id_seq (store srv)), m_sender_id = s, m_receiver_id = r,
                 m_content = c, m_message_type = t, m_image_data = i,
                 m_created_at = clock (store srv)\<rparr>
      in (srv\<lparr>store := (store srv)\<lparr>messages := messages (store srv) @ [saved],
                                    messages_id_seq := Suc (messages_id_seq (store srv))\<rparr>\<rparr>,
          Insert saved # map (\<lambda>c. Emit (socket_id c) saved) (connections srv)))"
  by (simp add: save_and_emit_def insert_message_def io_emit_def Let_def)

lemma emitted_sockets_map [simp]:
  "emitted_sockets (map (\<lambda>c. Emit (socket_id c) m) cs) = map socket_id cs"
  by (induction cs) simp_all

text \<open>
  C4: a valid message is written to \<open>messages\<close> before anything is pushed (the insert is
  the first effect after the log line, every push follows it). The row written is the
  message sent: its sender and receiver, and either its image data under type \<open>image\<close>
  or its content under type \<open>text\<close>, with the id and the timestamp the store assigns.
  Every push carries that very row, so all observers see the same record. What is
  stored does not depend on who is connected, so a message nobody could be reached for
  is saved all the same.
\<close>

theorem chat_message_persists_then_emits_saved_row:
  assumes "truthy_num (senderId msg)" and "truthy_num (receiverId msg)"
    and "(messageType msg = Some ''image'' \<and> truthy_str (imageData msg)) \<or> truthy_str (content msg)"
  shows "(let image = (messageType msg = Some ''image'' \<and> truthy_str (imageData msg));
              saved = \<lparr>m_id = Suc (messages_id_seq (store srv)),
                        m_sender_id = the (senderId msg), m_receiver_id = the (receiverId msg),
                        m_content = (if image then None else content msg),
                        m_message_type = (if image then ''image'' else ''text''),
                        m_image_data = (if image then imageData msg else None),
                        m_created_at = clock (store srv)\<rparr>
          in chat_message None srv msg =
               (srv\<lparr>store := (store srv)\<lparr>messages := messages (store srv) @ [saved],
                      messages_id_seq := Suc (messages_id_seq (store srv))\<rparr>\<rparr>,
                Console ''Received message:'' # Insert saved #
                  map (\<lambda>c. Emit (socket_id c) saved) (connections srv)))
       \<and> (\<forall>cs. store (fst (chat_message None (srv\<lparr>connections := cs\<rparr>) msg)) =
                store (fst (chat_message None srv msg)))"
  using assms by (auto simp add: chat_message_def save_and_emit_ok Let_def)

text \<open>
  Alice's text and Alice's image to Bob, with all three sockets connected, and the text
  again with nobody connected.
\<close>

theorem chat_message_persists_then_emits_saved_row_witness:
  "chat_message None srv0 (text_msg 1 2 ''hi bob'') =
     (srv0\<lparr>store := db0\<lparr>messages :=
          [\<lparr>m_id = 1, m_sender_id = 1, m_receiver_id = 2, m_content = Some ''hi bob'',
            m_message_type = ''text'', m_image_data = None, m_created_at = 100\<rparr>],
          messages_id_seq := 1\<rparr>\<rparr>,
      [Console ''Received message:'',
       Insert \<lparr>m_id = 1, m_sender_id = 1, m_receiver_id = 2, m_content = Some ''hi bob'',
               m_message_type = ''text'', m_image_data = None, m_created_at = 100\<rparr>,
       Emit 10 \<lparr>m_id = 1, m_sender_id = 1, m_receiver_id = 2, m_content = Some ''hi bob'',
               m_message_type = ''text'', m_image_data = None, m_created_at = 100\<rparr>,
       Emit 20 \<lparr>m_id = 1, m_sender_id = 1, m_receiver_id = 2, m_content = Some ''hi bob'',
               m_message_type = ''text'', m_image_data = None, m_created_at = 100\<rparr>,
       Emit 30 \<lparr>m_id = 1, m_sender_id = 1, m_receiver_id = 2, m_content = Some ''hi bob'',
               m_message_type = ''text'', m_image_data = None, m_created_at = 100\<rparr>])
   \<and> messages (store (fst (chat_message None srv0 (image_msg 1 2 ''png'')))) =
       [\<lparr>m_id = 1, m_sender_id = 1, m_receiver_id = 2, m_content = None,
         m_message_type = ''image'', m_image_data = Some ''png'', m_created_at = 100\<rparr>]
   \<and> messages (store (fst (chat_message None (srv0\<lparr>connections := []\<rparr>)
         (text_msg 1 2 ''hi bob'')))) =
       [\<lparr>m_id = 1, m_sender_id = 1, m_receiver_id = 2, m_content = Some ''hi bob'',
         m_message_type = ''text'', m_image_data = None, m_created_at = 100\<rparr>]"
proof -
  let ?m = "text_msg 1 2 ''hi bob''" and ?i = "image_msg 1 2 ''png''"
  have m: "truthy_num (senderId ?m)" "truthy_num (receiverId ?m)" "truthy_str (content ?m)"
    by (simp_all add: example_defs)
  have i: "truthy_num (senderId ?i)" "truthy_num (receiverId ?i)"
    "messageType ?i = Some ''image'' \<and> truthy_str (imageData ?i)"
    by (simp_all add: example_defs)
  note t = chat_message_persists_then_emits_saved_row
  from t [OF m(1) m(2) disjI2 [OF m(3)], of srv0]
  have c1: "chat_message None srv0 ?m =
     (srv0\<lparr>store := db0\<lparr>messages :=
          [\<lparr>m_id = 1, m_sender_id = 1, m_receiver_id = 2, m_content = Some ''hi bob'',
            m_message_type = ''text'', m_image_data = None, m_created_at = 100\<rparr>],
          messages_id_seq := 1\<rparr>\<rparr>,
      [Console ''Received message:'',
       Insert \<lparr>m_id = 1, m_sender_id = 1, m_receiver_id = 2, m_content = Some ''hi bob'',
               m_message_type = ''text'', m_image_data = None, m_created_at = 100\<rparr>,
       Emit 10 \<lparr>m_id = 1, m_sender_id = 1, m_receiver_id = 2, m_content = Some ''hi bob'',
               m_message_type = ''text'', m_image_data = None, m_created_at = 100\<rparr>,
       Emit 20 \<lparr>m_id = 1, m_sender_id = 1, m_receiver_id = 2, m_content = Some ''hi bob'',
               m_message_type = ''text'', m_image_data = None, m_created_at = 100\<rparr>,
       Emit 30 \<lparr>m_id = 1, m_sender_id = 1, m_receiver_id = 2, m_content = Some ''hi bob'',
               m_message_type = ''text'', m_image_data = None, m_created_at = 100\<rparr>])"
    by (simp add: Let_def srv0_def db0_def text_msg_def)
  from t [OF i(1) i(2) disjI1 [OF i(3)], of srv0]
  have c2: "messages (store (fst (chat_message None srv0 ?i))) =
       [\<lparr>m_id = 1, m_sender_id = 1, m_receiver_id = 2, m_content = None,
         m_message_type = ''image'', m_image_data = Some ''png'', m_created_at = 100\<rparr>]"
    by (simp add: Let_def srv0_def db0_def image_msg_def truthy_str_def)
  from t [OF m(1) m(2) disjI2 [OF m(3)], of srv0] c1
  have c3: "messages (store (fst (chat_message None (srv0\<lparr>connections := []\<rparr>) ?m))) =
       [\<lparr>m_id = 1, m_sender_id = 1, m_receiver_id = 2, m_content = Some ''hi bob'',
         m_message_type = ''text'', m_image_data = None, m_created_at = 100\<rparr>]"
    by simp
  from c1 c2 c3 show ?thesis by blast
qed

text \<open>
  C5, as stated, fails: Carol's socket 30 is pushed the message Alice sends to Bob.
\<close>

theorem third_user_receives_counterexample:
  "30 \<in> set (emitted_sockets (snd (chat_message None srv0 (text_msg 1 2 ''hi bob''))))
   \<and> [conn_user c. c \<leftarrow> connections srv0, socket_id c = 30] = [3]
   \<and> senderId (text_msg 1 2 ''hi bob'') = Some 1 \<and> receiverId (text_msg 1 2 ''hi bob'') = Some 2"
  by (simp add: chat_message_def save_and_emit_ok Let_def example_defs)

text \<open>
  C5, amended: a valid message is pushed to every socket connected at that moment, one
  push each, whoever is logged in behind it; the server consults no user of a socket.
\<close>

theorem chat_message_emits_to_every_connection:
  assumes "truthy_num (senderId msg)" and "truthy_num (receiverId msg)"
    and "(messageType msg = Some ''image'' \<and> truthy_str (imageData msg)) \<or> truthy_str (content msg)"
  shows "emitted_sockets (snd (chat_message None srv msg)) = map socket_id (connections srv)"
  using assms by (auto simp add: chat_message_def save_and_emit_ok Let_def)

theorem chat_message_emits_to_every_connection_witness:
  "emitted_sockets (snd (chat_message None srv0 (text_msg 1 2 ''hi bob''))) = [10, 20, 30]"
proof -
  let ?m = "text_msg 1 2 ''hi bob''"
  have m: "truthy_num (senderId ?m)" "truthy_num (receiverId ?m)" "truthy_str (content ?m)"
    by (simp_all add: example_defs)
  from chat_message_emits_to_every_connection [OF m(1) m(2) disjI2 [OF m(3)], of srv0]
  show ?thesis by (simp add: srv0_def)
qed

text \<open>
  C6, as stated, fails twice: a text of 501 characters, longer than the client's
  \<open>maxLength\<close>, is saved and pushed like any other; and a message with neither text nor
  image leaves two lines on the server's console and nothing else, no event to the
  sender.
\<close>

theorem long_text_saved_and_empty_message_silent_counterexample:
  "maxLength < length (replicate 501 CHR ''a'')
   \<and> map m_content (messages (store (fst (chat_message None srv0
         (text_msg 1 2 (replicate 501 CHR ''a'')))))) = [Some (replicate 501 CHR ''a'')]
   \<and> emitted_sockets (snd (chat_message None srv0 (text_msg 1 2 (replicate 501 CHR ''a''))))
       = [10, 20, 30]
   \<and> chat_message None srv0
         \<lparr>senderId = Some 1, receiverId = Some 2, content = None, messageType = Some ''text'',
          imageData = None\<rparr>
       = (srv0, [Console ''Received message:'', Console ''Text message missing content''])"
  by (simp add: chat_message_def save_and_emit_ok Let_def example_defs maxLength_def)

text \<open>
  C6, amended: the server checks no length. A message that is not an image with data and
  has a non-empty content is saved with that content, however long, and pushed; one
  whose content is missing or empty changes nothing and is reported on the server's
  console only: the effects are the two log lines, so nothing reaches the sender.
\<close>

theorem text_of_any_length_saved_and_empty_only_logged:
  assumes "truthy_num (senderId msg)" and "truthy_num (receiverId msg)"
    and "\<not> (messageType msg = Some ''image'' \<and> truthy_str (imageData msg))"
  shows "(truthy_str (content msg) \<longrightarrow>
            map m_content (messages (store (fst (chat_message None srv msg)))) =
              map m_content (messages (store srv)) @ [content msg]
          \<and> emitted_sockets (snd (chat_message None srv msg)) = map socket_id (connections srv))
       \<and> (\<not> truthy_str (content msg) \<longrightarrow>
            chat_message f srv msg =
              (srv, [Console ''Received message:'', Console ''Text message missing content'']))"
  using assms by (auto simp add: chat_message_def save_and_emit_ok Let_def)

theorem text_of_any_length_saved_and_empty_only_logged_witness:
  "map m_content (messages (store (fst (chat_message None srv0
       (text_msg 1 2 (replicate 501 CHR ''a'')))))) = [Some (replicate 501 CHR ''a'')]
   \<and> chat_message None srv0 (text_msg 1 2 [])
       = (srv0, [Console ''Received message:'', Console ''Text message missing content''])"
proof -
  let ?m = "text_msg 1 2 (replicate 501 CHR ''a'')" and ?e = "text_msg 1 2 []"
  have m: "truthy_num (senderId ?m)" "truthy_num (receiverId ?m)"
    "\<not> (messageType ?m = Some ''image'' \<and> truthy_str (imageData ?m))" "truthy_str (content ?m)"
    by (simp_all add: example_defs)
  have e: "truthy_num (senderId ?e)" "truthy_num (receiverId ?e)"
    "\<not> (messageType ?e = Some ''image'' \<and> truthy_str (imageData ?e))" "\<not> truthy_str (content ?e)"
    by (simp_all add: example_defs)
  from text_of_any_length_saved_and_empty_only_logged [OF m(1-3), of srv0] m(4)
  have first: "map m_content (messages (store (fst (chat_message None srv0 ?m)))) =
                 map m_content (messages (store srv0)) @ [content ?m]"
    by blast
  from text_of_any_length_saved_and_empty_only_logged [OF e(1-3), of srv0 None] e(4)
  have second: "chat_message None srv0 ?e =
                  (srv0, [Console ''Received message:'', Console ''Text message missing content''])"
    by blast
  from first second show ?thesis by (simp add: srv0_def db0_def text_msg_def)
qed

text \<open>
  C10: an event with \<open>messageType\<close> \<open>image\<close> and no (or empty) \<open>imageData\<close> is handled
  as text. With a non-empty \<open>content\<close> it is saved as a row of type \<open>text\<close> holding that
  content and no image, and pushed; with no content the server state is unchanged and
  the only effects are two lines on the console, whatever the store would have done.
\<close>

theorem image_without_data_falls_through_to_text:
  assumes "truthy_num (senderId msg)" and "truthy_num (receiverId msg)"
    and "messageType msg = Some ''image''" and "\<not> truthy_str (imageData msg)"
  shows "(truthy_str (content msg) \<longrightarrow>
            (\<exists>saved. chat_message None srv msg =
                 (srv\<lparr>store := (store srv)\<lparr>messages := messages (store srv) @ [saved],
                        messages_id_seq := Suc (messages_id_seq (store srv))\<rparr>\<rparr>,
                  Console ''Received message:'' # Insert saved #
                    map (\<lambda>c. Emit (socket_id c) saved) (connections srv))
               \<and> m_message_type saved = ''text'' \<and> m_content saved = content msg
               \<and> m_image_data saved = None
               \<and> m_sender_id saved = the (senderId msg)
               \<and> m_receiver_id saved = the (receiverId msg)))
       \<and> (\<not> truthy_str (content msg) \<longrightarrow>
            chat_message f srv msg =
              (srv, [Console ''Received message:'', Console ''Text message missing content'']))"
  using assms by (simp add: chat_message_def save_and_emit_ok Let_def)

theorem image_without_data_falls_through_to_text_witness:
  "(\<exists>saved. chat_message None srv0 (image_msg_no_data 1 2 (Some ''look'')) =
       (srv0\<lparr>store := db0\<lparr>messages := [saved], messages_id_seq := 1\<rparr>\<rparr>,
        [Console ''Received message:'', Insert saved, Emit 10 saved, Emit 20 saved, Emit 30 saved])
     \<and> m_message_type saved = ''text'' \<and> m_content saved = Some ''look''
     \<and> m_image_data saved = None \<and> m_sender_id saved = 1 \<and> m_receiver_id saved = 2)
   \<and> chat_message None srv0 (image_msg_no_data 1 2 None) =
       (srv0, [Console ''Received message:'', Console ''Text message missing content''])"
proof -
  let ?m = "image_msg_no_data 1 2 (Some ''look'')" and ?e = "image_msg_no_data 1 2 None"
  have m: "truthy_num (senderId ?m)" "truthy_num (receiverId ?m)"
    "messageType ?m = Some ''image''" "\<not> truthy_str (imageData ?m)" "truthy_str (content ?m)"
    by (simp_all add: example_defs)
  have e: "truthy_num (senderId ?e)" "truthy_num (receiverId ?e)"
    "messageType ?e = Some ''image''" "\<not> truthy_str (imageData ?e)" "\<not> truthy_str (content ?e)"
    by (simp_all add: example_defs)
  from image_without_data_falls_through_to_text [OF m(1-4), of srv0] m(5)
  have "\<exists>saved. chat_message None srv0 ?m =
                 (srv0\<lparr>store := (store srv0)\<lparr>messages := messages (store srv0) @ [saved],
                        messages_id_seq := Suc (messages_id_seq (store srv0))\<rparr>\<rparr>,
                  Console ''Received message:'' # Insert saved #
                    map (\<lambda>c. Emit (socket_id c) saved) (connections srv0))
               \<and> m_message_type saved = ''text'' \<and> m_content saved = content ?m
               \<and> m_image_data saved = None
               \<and> m_sender_id saved = the (senderId ?m)
               \<and> m_receiver_id saved = the (receiverId ?m)"
    by blast
  then have first: "\<exists>saved. chat_message None srv0 ?m =
       (srv0\<lparr>store := db0\<lparr>messages := [saved], messages_id_seq := 1\<rparr>\<rparr>,
        [Console ''Received message:'', Insert saved, Emit 10 saved, Emit 20 saved, Emit 30 saved])
     \<and> m_message_type saved = ''text'' \<and> m_content saved = Some ''look''
     \<and> m_image_data saved = None \<and> m_sender_id saved = 1 \<and> m_receiver_id saved = 2"
    by (simp add: srv0_def db0_def image_msg_no_data_def)
  from image_without_data_falls_through_to_text [OF e(1-4), of srv0 None] e(5)
  have second: "chat_message None srv0 ?e =
       (srv0, [Console ''Received message:'', Console ''Text message missing content''])"
    by blast
  from first second show ?thesis by blast
qed

section \<open>Fetching a conversation\<close>

lemma messages_rows_mset:
  "mset (messages_rows d u v) = filter_mset (in_conversation u v) (mset (messages d))"
  by (simp add: messages_rows_def)

lemma messages_rows_sorted: "sorted (map m_created_at (messages_rows d u v))"
  by (simp add: messages_rows_def)

lemma messages_rows_set:
  "set (messages_rows d u v) = {m \<in> set (messages d). in_conversation u v m}"
  by (simp add: messages_rows_def)

lemma chat_message_well_typed:
  assumes "list_all well_typed (messages (store srv))"
  shows "list_all well_typed (messages (store (fst (chat_message f srv msg))))"
  using assms
  by (auto simp add: chat_message_def save_and_emit_def insert_message_def Let_def
      well_typed_def truthy_str_def split: option.splits)

lemma text_round_trip:
  assumes "a \<noteq> 0" and "b \<noteq> 0" and "c \<noteq> []"
  shows "\<exists>m. m \<in> set (messages_rows (store (fst (chat_message None srv (text_msg a b c)))) a b)
           \<and> m_content m = Some c \<and> m_message_type m = ''text'' \<and> m_image_data m = None
           \<and> m_sender_id m = a \<and> m_receiver_id m = b \<and> clock (store srv) \<le> m_created_at m"
proof -
  let ?m = "\<lparr>m_id = Suc (messages_id_seq (store srv)), m_sender_id = a, m_receiver_id = b,
             m_content = Some c, m_message_type = ''text'', m_image_data = None,
             m_created_at = clock (store srv)\<rparr>"
  have "messages (store (fst (chat_message None srv (text_msg a b c)))) =
          messages (store srv) @ [?m]"
    using assms
    by (simp add: chat_message_def save_and_emit_ok Let_def text_msg_def truthy_num_def
        truthy_str_def)
  then have "?m \<in> set (messages_rows (store (fst (chat_message None srv (text_msg a b c)))) a b)"
    by (simp add: messages_rows_set in_conversation_def)
  then show ?thesis
    by (intro exI [of _ ?m]) simp
qed

text \<open>
  C7: \<open>GET /messages/:userId/:friendId\<close> answers 200 with exactly the stored messages
  whose sender and receiver are the two users, in either direction (as a multiset: none
  lost, none added, none repeated), in ascending order of \<open>created_at\<close>. The rows keep
  all their columns, so on a table written by the chat handler, which keeps every row
  well typed, each returned row has its discriminator and the payload column that goes
  with it. A text \<open>c\<close> sent from \<open>a\<close> to \<open>b\<close> is then in the conversation of \<open>a\<close> and
  \<open>b\<close>, as a \<open>text\<close> row with content \<open>c\<close>, sender \<open>a\<close>, receiver \<open>b\<close> and a timestamp
  not before the store's clock at the call.
\<close>

theorem history_exact_ordered_typed_round_trip:
  assumes "a \<noteq> 0" and "b \<noteq> 0" and "c \<noteq> []"
    and "list_all well_typed (messages d)"
  shows "get_messages None d u v = (200, MessagesJson (messages_rows d u v))
       \<and> mset (messages_rows d u v) = filter_mset (in_conversation u v) (mset (messages d))
       \<and> sorted (map m_created_at (messages_rows d u v))
       \<and> list_all well_typed (messages_rows d u v)
       \<and> list_all well_typed (messages (store (fst (chat_message f \<lparr>store = d, connections = cs\<rparr> msg))))
       \<and> (\<exists>m. m \<in> set (messages_rows (store (fst (chat_message None srv (text_msg a b c)))) a b)
           \<and> m_content m = Some c \<and> m_message_type m = ''text'' \<and> m_image_data m = None
           \<and> m_sender_id m = a \<and> m_receiver_id m = b \<and> clock (store srv) \<le> m_created_at m)"
proof -
  have "list_all well_typed (messages_rows d u v)"
    using assms(4) by (auto simp add: list_all_iff messages_rows_set)
  moreover have "list_all well_typed
      (messages (store (fst (chat_message f \<lparr>store = d, connections = cs\<rparr> msg))))"
    using assms(4) chat_message_well_typed [of "\<lparr>store = d, connections = cs\<rparr>"] by simp
  ultimately show ?thesis
    using text_round_trip [OF assms(1-3)]
    by (simp add: get_messages_def messages_rows_mset messages_rows_sorted)
qed

text \<open>
  Alice writes \<open>hello\<close> to Bob, Bob answers, Carol writes to Bob: the conversation of
  Bob and Alice holds the first two messages, oldest first.
\<close>

theorem history_exact_ordered_typed_round_trip_witness:
  "map m_content (messages_rows db_talk 2 1) = [Some ''hello'', Some ''hi alice'']
   \<and> mset (messages_rows db_talk 2 1) = filter_mset (in_conversation 2 1) (mset (messages db_talk))
   \<and> sorted (map m_created_at (messages_rows db_talk 2 1))
   \<and> (\<exists>m. m \<in> set (messages_rows (store (fst (chat_message None srv0 (text_msg 1 2 ''hello'')))) 1 2)
           \<and> m_content m = Some ''hello'' \<and> m_message_type m = ''text'' \<and> m_image_data m = None
           \<and> m_sender_id m = 1 \<and> m_receiver_id m = 2 \<and> 100 \<le> m_created_at m)"
proof -
  have wt: "list_all well_typed (messages db_talk)"
    by (simp add: db_talk_def well_typed_def)
  have ne: "(1::nat) \<noteq> 0" "(2::nat) \<noteq> 0" "''hello'' \<noteq> []"
    by simp_all
  have rows: "map m_content (messages_rows db_talk 2 1) = [Some ''hello'', Some ''hi alice'']"
    by (simp add: messages_rows_def db_talk_def in_conversation_def)
  from history_exact_ordered_typed_round_trip [OF ne wt, of 2 1 None "[]" "text_msg 1 2 ''x''" srv0] rows
  show ?thesis by (simp add: srv0_def db0_def)
qed

section \<open>Sending a friend request\<close>

text \<open>
  The states used below are what the handlers leave behind: one call gives the pending
  request, three calls the declined request followed by a pending one.
\<close>

lemma db_pending_reached:
  "fst (send_friend_request None ''r1'' db0 (Some (IdNum 1)) (Some ''bob'')) = db_pending"
  by (simp add: send_friend_request_def existing_request_reply_def request_of_def
      friendship_of_def truthy_id_def strict_eq_def sql_int_def Let_def request_defs)

lemma db_declined_pending_reached:
  "fst (send_friend_request None ''r2''
         (fst (decline_friend_request None
                (fst (send_friend_request None ''r1'' db0 (Some (IdNum 1)) (Some ''bob'')))
                (Some ''r1'') (Some 2)))
         (Some (IdNum 1)) (Some ''bob''))
   = db_declined_pending"
  by (simp add: send_friend_request_def decline_friend_request_def pending_for_def
      existing_request_reply_def request_of_def friendship_of_def truthy_id_def strict_eq_def
      sql_int_def Let_def request_defs)

lemma sql_int_num: "sql_int (IdNum n) = Some n"
  by (simp add: sql_int_def)

lemma existing_request_reply_pending:
  assumes "rows \<noteq> []" and "list_all (\<lambda>r. fr_status r = ''pending'') rows"
  shows "existing_request_reply s rows =
           Some (409, ErrorJson (if strict_eq s (fr_sender_id (hd rows))
                                 then ''Friend request already sent to this user''
                                 else ''This user has already sent you a friend request. Please check your requests.''))"
  using assms by (cases rows) (simp_all add: existing_request_reply_def)

lemma existing_request_reply_declined:
  assumes "list_all (\<lambda>r. fr_status r = ''declined'') rows"
  shows "existing_request_reply s rows = None"
  using assms by (cases rows) (simp_all add: existing_request_reply_def)

lemma existing_request_reply_Some:
  assumes "existing_request_reply s rows = Some reply"
  shows "rows \<noteq> [] \<and> (fr_status (hd rows) = ''pending'' \<or> fr_status (hd rows) = ''accepted'')"
  using assms by (cases rows) (auto simp add: existing_request_reply_def split: if_splits)

text \<open>
  What the handler answers to a sender id that is a number, where the requests of the
  pair agree in their status: 404 for an unknown username, 400 for the sender herself,
  409 for friends, 409 with the message for the caller's or for the other party's
  request when all requests of the pair are pending, and a new pending request with 201
  when all of them are declined or there is none.
\<close>

lemma send_friend_request_numeric_sender:
  assumes "s \<noteq> 0" and "uname \<noteq> []"
  shows "([u \<leftarrow> users d. username u = uname] = [] \<longrightarrow>
            send_friend_request None uuid d (Some (IdNum s)) (Some uname) =
              (d, 404, ErrorJson ''Recipient username not found''))
       \<and> ([u \<leftarrow> users d. username u = uname] = receiver # others \<longrightarrow>
            (u_id receiver = s \<longrightarrow>
               send_friend_request None uuid d (Some (IdNum s)) (Some uname) =
                 (d, 400, ErrorJson ''You cannot send a friend request to yourself''))
          \<and> (u_id receiver \<noteq> s \<and> [x \<leftarrow> friendships d. friendship_of s (u_id receiver) x] \<noteq> [] \<longrightarrow>
               send_friend_request None uuid d (Some (IdNum s)) (Some uname) =
                 (d, 409, ErrorJson ''You are already friends with this user''))
          \<and> (u_id receiver \<noteq> s \<and> [x \<leftarrow> friendships d. friendship_of s (u_id receiver) x] = []
               \<and> [r \<leftarrow> friend_requests d. request_of s (u_id receiver) r] \<noteq> []
               \<and> list_all (\<lambda>r. fr_status r = ''pending'')
                    [r \<leftarrow> friend_requests d. request_of s (u_id receiver) r] \<longrightarrow>
               send_friend_request None uuid d (Some (IdNum s)) (Some uname) =
                 (d, 409, ErrorJson
                    (if fr_sender_id (hd [r \<leftarrow> friend_requests d. request_of s (u_id receiver) r]) = s
                     then ''Friend request already sent to this user''
                     else ''This user has already sent you a friend request. Please check your requests.'')))
          \<and> (u_id receiver \<noteq> s \<and> [x \<leftarrow> friendships d. friendship_of s (u_id receiver) x] = []
               \<and> list_all (\<lambda>r. fr_status r = ''declined'')
                    [r \<leftarrow> friend_requests d. request_of s (u_id receiver) r] \<longrightarrow>
               send_friend_request None uuid d (Some (IdNum s)) (Some uname) =
                 (d\<lparr>friend_requests := friend_requests d @
                      [\<lparr>fr_id = uuid, fr_sender_id = s, fr_receiver_id = u_id receiver,
                        fr_status = ''pending'', fr_created_at = clock d,
                        fr_updated_at = clock d\<rparr>]\<rparr>,
                  201, MessageJson ''Friend request sent successfully'')))"
  using assms
  by (simp add: send_friend_request_def truthy_id_def truthy_str_def strict_eq_def sql_int_num
      Let_def existing_request_reply_pending existing_request_reply_declined)

lemma send_friend_request_numeric_sender_examples:
  "send_friend_request None ''r9'' db0 (Some (IdNum 1)) (Some ''dave'') =
     (db0, 404, ErrorJson ''Recipient username not found'')
   \<and> send_friend_request None ''r9'' db0 (Some (IdNum 1)) (Some ''alice'') =
     (db0, 400, ErrorJson ''You cannot send a friend request to yourself'')
   \<and> send_friend_request None ''r9'' db_friends (Some (IdNum 2)) (Some ''alice'') =
     (db_friends, 409, ErrorJson ''You are already friends with this user'')
   \<and> send_friend_request None ''r9'' db_pending (Some (IdNum 1)) (Some ''bob'') =
     (db_pending, 409, ErrorJson ''Friend request already sent to this user'')
   \<and> send_friend_request None ''r9'' db_pending (Some (IdNum 2)) (Some ''alice'') =
     (db_pending, 409, ErrorJson
        ''This user has already sent you a friend request. Please check your requests.'')
   \<and> send_friend_request None ''r9'' db_declined (Some (IdNum 2)) (Some ''alice'') =
     (db_declined\<lparr>friend_requests :=
        [request_row ''r1'' 1 2 ''declined'', request_row ''r9'' 2 1 ''pending'']\<rparr>,
      201, MessageJson ''Friend request sent successfully'')"
proof -
  have ne: "(1::nat) \<noteq> 0" "(2::nat) \<noteq> 0" "''dave'' \<noteq> []" "''alice'' \<noteq> []" "''bob'' \<noteq> []"
    by simp_all
  note t = send_friend_request_numeric_sender
  from t [OF ne(1) ne(3), where d = db0 and uuid = "''r9''"]
  have c1: "send_friend_request None ''r9'' db0 (Some (IdNum 1)) (Some ''dave'') =
     (db0, 404, ErrorJson ''Recipient username not found'')"
    by (simp add: request_defs)
  from t [OF ne(1) ne(4), where d = db0 and receiver = alice and others = "[]" and uuid = "''r9''"]
  have c2: "send_friend_request None ''r9'' db0 (Some (IdNum 1)) (Some ''alice'') =
     (db0, 400, ErrorJson ''You cannot send a friend request to yourself'')"
    by (simp add: request_defs)
  from t [OF ne(2) ne(4), where d = db_friends and receiver = alice and others = "[]" and uuid = "''r9''"]
  have c3: "send_friend_request None ''r9'' db_friends (Some (IdNum 2)) (Some ''alice'') =
     (db_friends, 409, ErrorJson ''You are already friends with this user'')"
    by (simp add: request_defs friendship_of_def)
  from t [OF ne(1) ne(5), where d = db_pending and receiver = bob and others = "[]" and uuid = "''r9''"]
  have c4: "send_friend_request None ''r9'' db_pending (Some (IdNum 1)) (Some ''bob'') =
     (db_pending, 409, ErrorJson ''Friend request already sent to this user'')"
    by (simp add: request_defs friendship_of_def request_of_def)
  from t [OF ne(2) ne(4), where d = db_pending and receiver = alice and others = "[]" and uuid = "''r9''"]
  have c5: "send_friend_request None ''r9'' db_pending (Some (IdNum 2)) (Some ''alice'') =
     (db_pending, 409, ErrorJson
        ''This user has already sent you a friend request. Please check your requests.'')"
    by (simp add: request_defs friendship_of_def request_of_def)
  from t [OF ne(2) ne(4), where d = db_declined and receiver = alice and others = "[]" and uuid = "''r9''"]
  have c6: "send_friend_request None ''r9'' db_declined (Some (IdNum 2)) (Some ''alice'') =
     (db_declined\<lparr>friend_requests :=
        [request_row ''r1'' 1 2 ''declined'', request_row ''r9'' 2 1 ''pending'']\<rparr>,
      201, MessageJson ''Friend request sent successfully'')"
    by (simp add: request_defs friendship_of_def request_of_def)
  from c1 c2 c3 c4 c5 c6 show ?thesis by blast
qed

text \<open>
  A sender id that is a string passes the self check, whatever it spells: Alice, with
  her id sent as \<open>"1"\<close>, stores a request to herself.
\<close>

lemma send_friend_request_string_sender:
  "send_friend_request None ''r9'' db0 (Some (IdStr ''1'')) (Some ''alice'') =
     (db0\<lparr>friend_requests := [request_row ''r9'' 1 1 ''pending'']\<rparr>,
      201, MessageJson ''Friend request sent successfully'')"
  by (simp add: send_friend_request_def existing_request_reply_def request_of_def
      friendship_of_def truthy_id_def strict_eq_def sql_int_def digit_of_def Let_def
      request_defs)

text \<open>
  C2: a request sent while a pending request of the pair exists should fail as a
  duplicate. Alice has a pending request to Bob, behind an older one that Bob declined,
  and sends another: the handler reads the declined row only, stores a second pending
  request and answers 201 with a confirmation message.
\<close>

theorem pending_request_behind_declined_not_detected:
  "[r \<leftarrow> friend_requests db_declined_pending. request_of 1 2 r \<and> fr_status r = ''pending'']
     = [request_row ''r2'' 1 2 ''pending'']
   \<and> send_friend_request None ''r3'' db_declined_pending (Some (IdNum 1)) (Some ''bob'')
     = (db_declined_pending\<lparr>friend_requests :=
          [request_row ''r1'' 1 2 ''declined'', request_row ''r2'' 1 2 ''pending'',
           request_row ''r3'' 1 2 ''pending'']\<rparr>,
        201, MessageJson ''Friend request sent successfully'')"
  by (simp add: send_friend_request_def existing_request_reply_def strict_eq_def sql_int_def
      truthy_id_def request_of_def friendship_of_def Let_def request_defs)

theorem pending_request_behind_declined_not_detected_witness:
  "fst (snd (send_friend_request None ''r3'' db_declined_pending (Some (IdNum 1)) (Some ''bob'')))
     = 201
   \<and> map fr_status [r \<leftarrow> friend_requests
         (fst (send_friend_request None ''r3'' db_declined_pending (Some (IdNum 1)) (Some ''bob''))).
         request_of 1 2 r] = [''declined'', ''pending'', ''pending'']"
  using pending_request_behind_declined_not_detected
  by (simp add: request_of_def request_row_def)

section \<open>Declining a friend request\<close>

lemma decline_keeps_rest:
  "users (fst (decline_friend_request f d r u)) = users d"
  "friendships (fst (decline_friend_request f d r u)) = friendships d"
  "messages (fst (decline_friend_request f d r u)) = messages d"
  "clock (fst (decline_friend_request f d r u)) = clock d"
  by (simp_all add: decline_friend_request_def)

lemma declined_rows_between:
  assumes "list_all (\<lambda>r. pending_for rid u r \<or> fr_status r = ''declined'')
             [r \<leftarrow> rows. request_of a b r]"
  shows "list_all (\<lambda>r. fr_status r = ''declined'')
           [r \<leftarrow> map (\<lambda>r. if pending_for rid u r
                             then r\<lparr>fr_status := ''declined'', fr_updated_at := t\<rparr> else r) rows.
              request_of a b r]"
  using assms by (induction rows) (auto simp add: request_of_def)

text \<open>
  C9: for a present request id and acting user, \<open>/decline-friend-request\<close> answers 404
  unless a pending request with that id is addressed to the acting user; otherwise it
  answers 200, sets exactly those requests to \<open>declined\<close>, creates no friendship and
  leaves no such request pending. After the decline either party may send a request to
  the other: when they are not friends and the pair has no other request than declined
  ones, the new request is stored as \<open>pending\<close> and answered 201. The check on existing
  requests answers only when the request it reads is \<open>pending\<close> or \<open>accepted\<close>.
\<close>

theorem decline_friend_request_outcomes:
  assumes "rid \<noteq> []" and "u \<noteq> 0"
  shows "([r \<leftarrow> friend_requests d. pending_for rid u r] = [] \<longrightarrow>
            decline_friend_request None d (Some rid) (Some u) =
              (d, 404, ErrorJson ''Friend request not found or already processed''))
       \<and> ([r \<leftarrow> friend_requests d. pending_for rid u r] \<noteq> [] \<longrightarrow>
            decline_friend_request None d (Some rid) (Some u) =
              (d\<lparr>friend_requests :=
                   map (\<lambda>r. if pending_for rid u r
                             then r\<lparr>fr_status := ''declined'', fr_updated_at := clock d\<rparr> else r)
                       (friend_requests d)\<rparr>,
               200, MessageJson ''Friend request declined successfully'')
          \<and> friendships (fst (decline_friend_request None d (Some rid) (Some u))) = friendships d
          \<and> [r \<leftarrow> friend_requests (fst (decline_friend_request None d (Some rid) (Some u))).
               pending_for rid u r] = [])
       \<and> ([r \<leftarrow> friend_requests d. pending_for rid u r] = request # others
          \<and> ((a = fr_sender_id request \<and> b = u) \<or> (a = u \<and> b = fr_sender_id request))
          \<and> a \<noteq> 0 \<and> a \<noteq> b \<and> uname \<noteq> []
          \<and> [x \<leftarrow> users d. username x = uname] = receiver # homonyms \<and> u_id receiver = b
          \<and> [x \<leftarrow> friendships d. friendship_of a b x] = []
          \<and> list_all (\<lambda>r. pending_for rid u r \<or> fr_status r = ''declined'')
               [r \<leftarrow> friend_requests d. request_of a b r] \<longrightarrow>
            send_friend_request None uuid (fst (decline_friend_request None d (Some rid) (Some u)))
                (Some (IdNum a)) (Some uname) =
              (let d' = fst (decline_friend_request None d (Some rid) (Some u))
               in (d'\<lparr>friend_requests := friend_requests d' @
                        [\<lparr>fr_id = uuid, fr_sender_id = a, fr_receiver_id = b,
                          fr_status = ''pending'', fr_created_at = clock d,
                          fr_updated_at = clock d\<rparr>]\<rparr>,
                   201, MessageJson ''Friend request sent successfully'')))
       \<and> (existing_request_reply sender rows = Some reply \<longrightarrow>
            rows \<noteq> [] \<and> (fr_status (hd rows) = ''pending'' \<or> fr_status (hd rows) = ''accepted''))"
proof (intro conjI impI)
  show "decline_friend_request None d (Some rid) (Some u) =
          (d, 404, ErrorJson ''Friend request not found or already processed'')"
    if "[r \<leftarrow> friend_requests d. pending_for rid u r] = []"
    using that assms by (simp add: decline_friend_request_def truthy_num_def truthy_str_def)
next
  assume ne: "[r \<leftarrow> friend_requests d. pending_for rid u r] \<noteq> []"
  show "decline_friend_request None d (Some rid) (Some u) =
              (d\<lparr>friend_requests :=
                   map (\<lambda>r. if pending_for rid u r
                             then r\<lparr>fr_status := ''declined'', fr_updated_at := clock d\<rparr> else r)
                       (friend_requests d)\<rparr>,
               200, MessageJson ''Friend request declined successfully'')"
    using ne assms by (simp add: decline_friend_request_def truthy_num_def truthy_str_def)
  show "friendships (fst (decline_friend_request None d (Some rid) (Some u))) = friendships d"
    by (simp add: decline_keeps_rest)
  show "[r \<leftarrow> friend_requests (fst (decline_friend_request None d (Some rid) (Some u))).
               pending_for rid u r] = []"
    using ne assms
    by (auto simp add: decline_friend_request_def truthy_num_def truthy_str_def filter_empty_conv
        pending_for_def)
next
  assume h: "[r \<leftarrow> friend_requests d. pending_for rid u r] = request # others
          \<and> ((a = fr_sender_id request \<and> b = u) \<or> (a = u \<and> b = fr_sender_id request))
          \<and> a \<noteq> 0 \<and> a \<noteq> b \<and> uname \<noteq> []
          \<and> [x \<leftarrow> users d. username x = uname] = receiver # homonyms \<and> u_id receiver = b
          \<and> [x \<leftarrow> friendships d. friendship_of a b x] = []
          \<and> list_all (\<lambda>r. pending_for rid u r \<or> fr_status r = ''declined'')
               [r \<leftarrow> friend_requests d. request_of a b r]"
  let ?d' = "fst (decline_friend_request None d (Some rid) (Some u))"
  have reqs: "friend_requests ?d' =
                map (\<lambda>r. if pending_for rid u r
                          then r\<lparr>fr_status := ''declined'', fr_updated_at := clock d\<rparr> else r)
                    (friend_requests d)"
    using h assms by (simp add: decline_friend_request_def truthy_num_def truthy_str_def)
  have "list_all (\<lambda>r. fr_status r = ''declined'') [r \<leftarrow> friend_requests ?d'. request_of a b r]"
    unfolding reqs using h by (intro declined_rows_between) simp
  then have none: "existing_request_reply (IdNum a) [r \<leftarrow> friend_requests ?d'. request_of a b r] = None"
    by (rule existing_request_reply_declined)
  show "send_friend_request None uuid ?d' (Some (IdNum a)) (Some uname) =
              (let d' = ?d'
               in (d'\<lparr>friend_requests := friend_requests d' @
                        [\<lparr>fr_id = uuid, fr_sender_id = a, fr_receiver_id = b,
                          fr_status = ''pending'', fr_created_at = clock d,
                          fr_updated_at = clock d\<rparr>]\<rparr>,
                   201, MessageJson ''Friend request sent successfully''))"
    using h none
    by (simp add: send_friend_request_def truthy_id_def truthy_str_def strict_eq_def sql_int_num
        Let_def decline_keeps_rest)
next
  assume "existing_request_reply sender rows = Some reply"
  then show "rows \<noteq> []" and "fr_status (hd rows) = ''pending'' \<or> fr_status (hd rows) = ''accepted''"
    using existing_request_reply_Some by blast+
qed

theorem decline_friend_request_outcomes_witness:
  "decline_friend_request None db_pending (Some ''r1'') (Some 1) =
     (db_pending, 404, ErrorJson ''Friend request not found or already processed'')
   \<and> decline_friend_request None db_pending (Some ''r1'') (Some 2) =
     (db_declined, 200, MessageJson ''Friend request declined successfully'')
   \<and> friendships (fst (decline_friend_request None db_pending (Some ''r1'') (Some 2))) = []
   \<and> send_friend_request None ''r2''
       (fst (decline_friend_request None db_pending (Some ''r1'') (Some 2))) (Some (IdNum 1)) (Some ''bob'') =
     (db_declined_pending, 201, MessageJson ''Friend request sent successfully'')"
proof -
  have ne: "''r1'' \<noteq> []" "(1::nat) \<noteq> 0" "(2::nat) \<noteq> 0"
    by simp_all
  from decline_friend_request_outcomes [OF ne(1) ne(2), where d = db_pending
      and request = "request_row ''r1'' 1 2 ''pending''" and others = "[]" and a = 1 and b = 2
      and uname = "''bob''" and receiver = bob and homonyms = "[]" and uuid = "''r2''"
      and sender = "IdNum 1" and rows = "[]" and reply = "(409, ErrorJson [])"]
  have c1: "decline_friend_request None db_pending (Some ''r1'') (Some 1) =
     (db_pending, 404, ErrorJson ''Friend request not found or already processed'')"
    by (simp add: request_defs pending_for_def)
  note t = decline_friend_request_outcomes [OF ne(1) ne(3), where d = db_pending
      and request = "request_row ''r1'' 1 2 ''pending''" and others = "[]" and a = 1 and b = 2
      and uname = "''bob''" and receiver = bob and homonyms = "[]" and uuid = "''r2''"
      and sender = "IdNum 1" and rows = "[]" and reply = "(409, ErrorJson [])"]
  have found: "[r \<leftarrow> friend_requests db_pending. pending_for ''r1'' 2 r] =
                 request_row ''r1'' 1 2 ''pending'' # []"
    by (simp add: request_defs pending_for_def)
  have free: "((1::nat) = fr_sender_id (request_row ''r1'' 1 2 ''pending'') \<and> (2::nat) = 2 \<or>
                (1::nat) = 2 \<and> (2::nat) = fr_sender_id (request_row ''r1'' 1 2 ''pending''))
              \<and> (1::nat) \<noteq> 0 \<and> (1::nat) \<noteq> 2 \<and> ''bob'' \<noteq> []
              \<and> [x \<leftarrow> users db_pending. username x = ''bob''] = bob # [] \<and> u_id bob = 2
              \<and> [x \<leftarrow> friendships db_pending. friendship_of 1 2 x] = []
              \<and> list_all (\<lambda>r. pending_for ''r1'' 2 r \<or> fr_status r = ''declined'')
                   [r \<leftarrow> friend_requests db_pending. request_of 1 2 r]"
    by (simp add: request_defs pending_for_def request_of_def)
  from t found have d2: "decline_friend_request None db_pending (Some ''r1'') (Some 2) =
     (db_pending\<lparr>friend_requests :=
        map (\<lambda>r. if pending_for ''r1'' 2 r
                  then r\<lparr>fr_status := ''declined'', fr_updated_at := clock db_pending\<rparr> else r)
            (friend_requests db_pending)\<rparr>,
      200, MessageJson ''Friend request declined successfully'')"
    by simp
  then have c2: "decline_friend_request None db_pending (Some ''r1'') (Some 2) =
     (db_declined, 200, MessageJson ''Friend request declined successfully'')"
    by (simp add: request_defs pending_for_def)
  from t found have c3:
    "friendships (fst (decline_friend_request None db_pending (Some ''r1'') (Some 2))) = []"
    by (simp add: db_pending_def db0_def)
  from t found free have "send_friend_request None ''r2''
       (fst (decline_friend_request None db_pending (Some ''r1'') (Some 2))) (Some (IdNum 1)) (Some ''bob'') =
     (let d' = fst (decline_friend_request None db_pending (Some ''r1'') (Some 2))
      in (d'\<lparr>friend_requests := friend_requests d' @
               [\<lparr>fr_id = ''r2'', fr_sender_id = 1, fr_receiver_id = 2,
                 fr_status = ''pending'', fr_created_at = clock db_pending,
                 fr_updated_at = clock db_pending\<rparr>]\<rparr>,
          201, MessageJson ''Friend request sent successfully''))"
    by blast
  then have c4: "send_friend_request None ''r2''
       (fst (decline_friend_request None db_pending (Some ''r1'') (Some 2))) (Some (IdNum 1)) (Some ''bob'') =
     (db_declined_pending, 201, MessageJson ''Friend request sent successfully'')"
    unfolding c2 by (simp add: request_defs)
  from c1 c2 c3 c4 show ?thesis by blast
qed

section \<open>Accepting a friend request\<close>

lemma accept_scope_misses_name: "''insertFriendship11Query'' \<notin> set accept_scope"
  by (simp add: accept_scope_def)

lemma accept_friend_request_rolls_back: "fst (accept_friend_request f d r u) = d"
  by (simp add: accept_friend_request_def accept_scope_misses_name Let_def internal_error_def
      split: list.splits)

lemma accept_friend_request_never_200: "fst (snd (accept_friend_request f d r u)) \<in> {400, 404, 500}"
  by (simp add: accept_friend_request_def accept_scope_misses_name Let_def internal_error_def
      split: list.splits)

lemma accept_friend_request_not_found:
  assumes "rid \<noteq> []" and "u \<noteq> 0" and "[r \<leftarrow> friend_requests d. pending_for rid u r] = []"
  shows "accept_friend_request None d (Some rid) (Some u) =
           (d, 404, ErrorJson ''Friend request not found or already processed'')"
  using assms by (simp add: accept_friend_request_def truthy_num_def truthy_str_def)

text \<open>
  C1: accepting a pending request as its receiver should mark it \<open>accepted\<close> and create
  the friendship, both or neither. The handler does neither: with a store that answers
  every statement, Bob's acceptance of Alice's pending request is answered 500 and
  leaves the store as it was, because the statement that inserts the friendship names
  \<open>insertFriendship11Query\<close> where the handler declares \<open>insertFriendship1Query\<close>.
\<close>

theorem accept_of_pending_request_answers_500:
  "accept_friend_request None db_pending (Some ''r1'') (Some 2) =
     (db_pending, 500, ErrorJson ''Internal server error'')"
  by (simp add: accept_friend_request_def accept_scope_def pending_for_def Let_def
      internal_error_def request_defs)

theorem accept_of_pending_request_answers_500_witness:
  "fst (snd (accept_friend_request None db_pending (Some ''r1'') (Some 2))) = 500
   \<and> map fr_status (friend_requests (fst (accept_friend_request None db_pending (Some ''r1'') (Some 2))))
       = [''pending'']
   \<and> friendships (fst (accept_friend_request None db_pending (Some ''r1'') (Some 2))) = []"
  using accept_of_pending_request_answers_500
  by (simp add: db_pending_def db0_def request_row_def)

section \<open>Listing friends\<close>


lemma add_friend_lists_both:
  "get_friends None (fst (add_friend None db0 (Some 1) (Some ''bob''))) 1
     = (200, FriendsJson [(2, ''bob'', ''Bob'')])
   \<and> get_friends None (fst (add_friend None db0 (Some 1) (Some ''bob''))) 2
     = (200, FriendsJson [(1, ''alice'', ''Alice'')])"
  by (simp add: add_friend_def friendship_of_def get_friends_def friends_rows_def join_on_def
      Let_def request_defs)



text \<open>After the failed acceptance \<open>GET /friends\<close> lists nobody for Alice or Bob.\<close>

lemma nobody_listed_after_accept:
  "get_friends None (fst (accept_friend_request None db_pending (Some ''r1'') (Some 2))) 1
     = (200, FriendsJson [])
   \<and> get_friends None (fst (accept_friend_request None db_pending (Some ''r1'') (Some 2))) 2
     = (200, FriendsJson [])
   \<and> fst (snd (accept_friend_request None db_pending (Some ''r1'') (Some 2))) = 500"
  by (simp add: accept_friend_request_def accept_scope_def pending_for_def Let_def
      internal_error_def get_friends_def friends_rows_def request_defs)



section \<open>The friendships table\<close>

lemma handler_friendships:
  "friendships (fst (register f h d un p n)) = friendships d"
  "friendships (fst (login f c d un p)) = friendships d"
  "friendships (fst (send_friend_request f i d s rn)) = friendships d"
  "friendships (fst (decline_friend_request f d r u)) = friendships d"
  "friendships (fst (accept_friend_request f d r u)) = friendships d"
  by (simp_all add: register_def login_def send_friend_request_def decline_friend_request_def
      accept_friend_request_rolls_back Let_def split: list.splits option.splits)

lemma chat_message_friendships:
  "friendships (store (fst (chat_message f srv m))) = friendships (store srv)"
  by (simp add: chat_message_def save_and_emit_def insert_message_def Let_def)

lemma add_friend_prefix:
  "prefix (friendships d) (friendships (fst (add_friend f d u n)))"
  "prefix (friendships d) (friendships (fst (add_friend_token_server f d u n)))"
  by (simp_all add: add_friend_def add_friend_token_server_def Let_def split: list.splits)

lemma add_friend_created:
  assumes "fst (snd (add_friend f d userId uname)) = 201"
  shows "(\<exists>friend. friendships (fst (add_friend f d userId uname)) =
                      friendships d @ [\<lparr>user1_id = the userId, user2_id = u_id friend\<rparr>]
                  \<and> friend \<in> set (users d) \<and> username friend = the uname)
       \<and> friend_requests (fst (add_friend f d userId uname)) = friend_requests d"
proof (cases "[u \<leftarrow> users d. username u = the uname]")
  case Nil
  with assms show ?thesis
    by (simp add: add_friend_def internal_error_def split: if_splits)
next
  case (Cons friend others)
  then have "friend \<in> set [u \<leftarrow> users d. username u = the uname]" by simp
  then have "friend \<in> set (users d)" "username friend = the uname" by simp_all
  with assms Cons show ?thesis
    by (auto simp add: add_friend_def internal_error_def Let_def split: if_splits)
qed

text \<open>
  C8, as stated, fails: \<open>POST /add-friend\<close> makes Alice and Bob friends although no
  friend request exists.
\<close>

theorem friendship_without_request_counterexample:
  "friendships (store (handle srv0 (AddFriend None (Some 1) (Some ''bob''))))
     = [\<lparr>user1_id = 1, user2_id = 2\<rparr>]
   \<and> friend_requests (store (handle srv0 (AddFriend None (Some 1) (Some ''bob'')))) = []"
  by (simp add: add_friend_def friendship_of_def Let_def srv0_def request_defs)

text \<open>
  C8, amended: no request ever updates or deletes a friendship row: the table after a
  request starts with the table before it. Only \<open>/add-friend\<close> (of either server) and
  \<open>/accept-friend-request\<close> can add to it, and \<open>/add-friend\<close>, when it answers 201, adds
  the row of the caller and the named user directly, reading and writing no friend
  request.
\<close>

theorem friendships_grow_only_by_add_friend_or_accept:
  "prefix (friendships (store srv)) (friendships (store (handle srv rq)))
   \<and> (\<not> adds_friendship rq \<longrightarrow> friendships (store (handle srv rq)) = friendships (store srv))
   \<and> (fst (snd (add_friend f d userId uname)) = 201 \<longrightarrow>
        (\<exists>friend. friendships (fst (add_friend f d userId uname)) =
                      friendships d @ [\<lparr>user1_id = the userId, user2_id = u_id friend\<rparr>]
                  \<and> friend \<in> set (users d) \<and> username friend = the uname)
        \<and> friend_requests (fst (add_friend f d userId uname)) = friend_requests d)"
proof (intro conjI impI)
  show "prefix (friendships (store srv)) (friendships (store (handle srv rq)))"
    by (cases rq) (simp_all add: handler_friendships chat_message_friendships add_friend_prefix)
  show "friendships (store (handle srv rq)) = friendships (store srv)" if "\<not> adds_friendship rq"
    using that by (cases rq) (simp_all add: handler_friendships chat_message_friendships)
qed (use add_friend_created in blast)+

theorem friendships_grow_only_by_add_friend_or_accept_witness:
  "prefix (friendships (store srv0))
     (friendships (store (handle srv0 (AddFriend None (Some 1) (Some ''bob'')))))
   \<and> friendships (store (handle \<lparr>store = db_friends, connections = []\<rparr>
         (SendFriendRequest None ''r1'' (Some (IdNum 1)) (Some ''carol'')))) = [\<lparr>user1_id = 1, user2_id = 2\<rparr>]
   \<and> (\<exists>friend. friendships (fst (add_friend None db0 (Some 1) (Some ''bob''))) =
                   [\<lparr>user1_id = 1, user2_id = u_id friend\<rparr>]
               \<and> friend \<in> set (users db0) \<and> username friend = ''bob'')
   \<and> friend_requests (fst (add_friend None db0 (Some 1) (Some ''bob''))) = []"
proof -
  have created: "fst (snd (add_friend None db0 (Some 1) (Some ''bob''))) = 201"
    by (simp add: add_friend_def friendship_of_def Let_def request_defs)
  have other: "\<not> adds_friendship (SendFriendRequest None ''r1'' (Some (IdNum 1)) (Some ''carol''))"
    by simp
  note t = friendships_grow_only_by_add_friend_or_accept
  from t [where srv = srv0 and rq = "AddFriend None (Some 1) (Some ''bob'')"]
  have c1: "prefix (friendships (store srv0))
     (friendships (store (handle srv0 (AddFriend None (Some 1) (Some ''bob'')))))"
    by blast
  from t [where srv = "\<lparr>store = db_friends, connections = []\<rparr>"
      and rq = "SendFriendRequest None ''r1'' (Some (IdNum 1)) (Some ''carol'')"] other
  have c2: "friendships (store (handle \<lparr>store = db_friends, connections = []\<rparr>
         (SendFriendRequest None ''r1'' (Some (IdNum 1)) (Some ''carol'')))) = [\<lparr>user1_id = 1, user2_id = 2\<rparr>]"
    by (simp add: db_friends_def db0_def)
  from t [where f = None and d = db0 and userId = "Some 1" and uname = "Some ''bob''"] created
  have c3: "(\<exists>friend. friendships (fst (add_friend None db0 (Some 1) (Some ''bob''))) =
                   [\<lparr>user1_id = 1, user2_id = u_id friend\<rparr>]
               \<and> friend \<in> set (users db0) \<and> username friend = ''bob'')
   \<and> friend_requests (fst (add_friend None db0 (Some 1) (Some ''bob''))) = []"
    by (simp add: db0_def)
  from c1 c2 c3 show ?thesis by blast
qed

end
